theory Spec2Isabelle
  imports Main "HOL-Library.Word"
begin

section \<open>Go values used by package httpapi\<close>

text \<open>
  A Go \<^verbatim>\<open>string\<close> is a sequence of bytes, here a \<^typ>\<open>string\<close> (a list of 8-bit
  characters). A \<^verbatim>\<open>[]byte\<close> is a list of 8-bit words. Go's \<^verbatim>\<open>int\<close> and
  \<^verbatim>\<open>int64\<close> are modelled by \<^typ>\<open>int\<close>; the only arithmetic the package performs
  on them is comparison and taking lengths, and the one place where the 64-bit range
  matters (\<^verbatim>\<open>strconv.ParseInt\<close>) checks it explicitly.
\<close>

type_synonym byte = "8 word"
type_synonym bytes = "byte list"

subsection \<open>Errors\<close>

text \<open>
  The error values the package itself creates, by the constructor that creates them:
  \<^verbatim>\<open>errkind.BadRequest(msg)\<close>, \<^verbatim>\<open>errkind.Public(msg, status)\<close>,
  \<^verbatim>\<open>errors.New(msg)\<close>, \<^verbatim>\<open>err.With(key, value)\<close>, \<^verbatim>\<open>errors.Wrap(err, msg)\<close>,
  and an error handed back by a standard library call (\<^verbatim>\<open>LibError\<close>, with its
  text).
\<close>

datatype error =
    errkind_BadRequest string
  | errkind_Public string int
  | errors_New string
  | errors_With error string string
  | errors_Wrap error string
  | LibError string

subsection \<open>strconv.ParseInt and strconv.Atoi\<close>

datatype NumError = ErrSyntax | ErrRange

definition is_digit :: "char \<Rightarrow> bool" where
  "is_digit c = ((48::nat) \<le> of_char c \<and> (of_char c :: nat) \<le> 57)"

definition digit_val :: "char \<Rightarrow> nat" where
  "digit_val c = of_char c - 48"

text \<open>
  The digit loop of \<^verbatim>\<open>strconv.ParseUint(s, 10, bitSize)\<close>: a byte that is not a
  decimal digit is a syntax error; a value that no longer fits in \<open>bitSize\<close> bits is a
  range error, reported as soon as it arises.
\<close>

fun parse_digits :: "nat \<Rightarrow> nat \<Rightarrow> string \<Rightarrow> NumError + nat" where
  "parse_digits bitSize n [] = Inr n"
| "parse_digits bitSize n (c # cs) =
     (if \<not> is_digit c then Inl ErrSyntax
      else if n * 10 + digit_val c > 2 ^ bitSize - 1 then Inl ErrRange
      else parse_digits bitSize (n * 10 + digit_val c) cs)"

definition ParseUint :: "string \<Rightarrow> nat \<Rightarrow> NumError + nat" where
  "ParseUint s bitSize = (if s = [] then Inl ErrSyntax else parse_digits bitSize 0 s)"

text \<open>
  \<^verbatim>\<open>strconv.ParseInt(s, 10, bitSize)\<close>: an optional sign, then
  \<^verbatim>\<open>ParseUint\<close> on the rest; the magnitude must fit the signed range. Every error of
  \<^verbatim>\<open>ParseUint\<close> is an error of \<^verbatim>\<open>ParseInt\<close>.
\<close>

definition ParseInt :: "string \<Rightarrow> nat \<Rightarrow> NumError + int" where
  "ParseInt s bitSize =
     (case s of
        [] \<Rightarrow> Inl ErrSyntax
      | c # cs \<Rightarrow>
          (let neg = (c = CHR ''-'');
               rest = (if c = CHR ''+'' \<or> c = CHR ''-'' then cs else s)
           in case ParseUint rest bitSize of
                Inl e \<Rightarrow> Inl e
              | Inr un \<Rightarrow>
                  if \<not> neg \<and> un \<ge> 2 ^ (bitSize - 1) then Inl ErrRange
                  else if neg \<and> un > 2 ^ (bitSize - 1) then Inl ErrRange
                  else Inr (if neg then - int un else int un)))"

text \<open>The size of Go's \<^verbatim>\<open>int\<close>, taken to be 64 bits (a 64-bit platform).\<close>

definition IntSize :: nat where
  "IntSize = 64"

definition Atoi :: "string \<Rightarrow> NumError + int" where
  "Atoi s = ParseInt s IntSize"

subsection \<open>HTTP requests\<close>

text \<open>
  \<^verbatim>\<open>http.Header\<close> and \<^verbatim>\<open>url.Values\<close> are both \<^verbatim>\<open>map[string][]string\<close>.
  \<^verbatim>\<open>Get\<close> returns the first value of a key, or the empty string.
\<close>

type_synonym multimap = "string \<rightharpoonup> string list"

definition Get :: "multimap \<Rightarrow> string \<Rightarrow> string" where
  "Get m key = (case m key of None \<Rightarrow> [] | Some [] \<Rightarrow> [] | Some (v # _) \<Rightarrow> v)"

text \<open>
  The request body is an \<^verbatim>\<open>io.Reader\<close>: it delivers the bytes \<open>avail\<close> and then
  ends, with \<^verbatim>\<open>io.EOF\<close> or with a read error.
\<close>

datatype stream_end = EOF | ReadFails

record Body =
  avail :: bytes
  ending :: stream_end

record Request =
  Header :: multimap
  body :: Body
  URL_Query :: multimap

text \<open>
  \<^verbatim>\<open>io.ReadFull(r, buf)\<close> with \<open>len(buf) = n\<close>: succeeds exactly when the reader
  delivers \<open>n\<close> bytes; otherwise it fails, having drained the reader.
\<close>

definition ReadFull :: "Body \<Rightarrow> nat \<Rightarrow> (error + bytes) \<times> Body" where
  "ReadFull b n =
     (if n \<le> length (avail b) then (Inr (take n (avail b)), b\<lparr>avail := drop n (avail b)\<rparr>)
      else (Inl (LibError ''unexpected EOF''), b\<lparr>avail := []\<rparr>))"

text \<open>
  \<^verbatim>\<open>ioutil.ReadAll(io.LimitReader(r, n))\<close>: reads until \<open>n\<close> bytes have been
  delivered or the reader ends; only a read error of the underlying reader is an error.
\<close>

definition ReadAll_Limit :: "Body \<Rightarrow> nat \<Rightarrow> (error + bytes) \<times> Body" where
  "ReadAll_Limit b n =
     (if n \<le> length (avail b) then (Inr (take n (avail b)), b\<lparr>avail := drop n (avail b)\<rparr>)
      else case ending b of
             EOF \<Rightarrow> (Inr (avail b), b\<lparr>avail := []\<rparr>)
           | ReadFails \<Rightarrow> (Inl (LibError ''read failed''), b\<lparr>avail := []\<rparr>))"

section \<open>rawData: the payload buffer (rawdata.go)\<close>

definition maxRequestLen :: int where
  "maxRequestLen = 1024 * 1024 * 16"

definition ceIdentity :: string where "ceIdentity = ''identity''"
definition ceDeflate :: string where "ceDeflate = ''deflate''"
definition ceGzip :: string where "ceGzip = ''gzip''"

definition StatusRequestEntityTooLarge :: int where
  "StatusRequestEntityTooLarge = 413"

definition StatusInternalServerError :: int where
  "StatusInternalServerError = 500"

record rawData =
  ContentType :: string
  ContentEncoding :: string
  Content :: bytes
  UncompressedLength :: int

text \<open>
  \<^verbatim>\<open>IsCompressed\<close> has a pointer receiver and writes to it: an empty encoding is
  replaced by \<^verbatim>\<open>"identity"\<close>. The model returns the answer and the buffer.
\<close>

definition IsCompressed :: "rawData \<Rightarrow> bool \<times> rawData" where
  "IsCompressed data =
     (let data1 = (if ContentEncoding data = [] then data\<lparr>ContentEncoding := ceIdentity\<rparr> else data)
      in (ContentEncoding data1 \<noteq> ceIdentity, data1))"

text \<open>
  The second half of \<^verbatim>\<open>ReadRequest\<close>, after the content has been read: encoding,
  uncompressed length and content type from the headers.
\<close>

definition set_metadata :: "rawData \<Rightarrow> Request \<Rightarrow> rawData" where
  "set_metadata data r =
     (let ce = Get (Header r) ''Content-Encoding'';
          data1 = (if ce \<noteq> [] then data\<lparr>ContentEncoding := ce, UncompressedLength := 0\<rparr>
                   else data\<lparr>UncompressedLength := int (length (Content data)),
                             ContentEncoding := ceIdentity\<rparr>);
          data2 = data1\<lparr>ContentType := Get (Header r) ''Content-Type''\<rparr>
      in if ContentType data2 = [] then data2\<lparr>ContentType := ''application/octet-stream''\<rparr>
         else data2)"

text \<open>
  \<^verbatim>\<open>rawData.ReadRequest\<close>. The result is the error (if any), the buffer and the
  body stream as the call leaves them.
\<close>

definition ReadRequest :: "rawData \<Rightarrow> Request \<Rightarrow> error option \<times> rawData \<times> Body" where
  "ReadRequest data r =
     (let cl = Get (Header r) ''Content-Length'' in
      if cl \<noteq> [] then
        (case ParseInt cl 64 of
           Inl e \<Rightarrow> (Some (errkind_BadRequest ''invalid content-length''), data, body r)
         | Inr v \<Rightarrow>
             if v < 0 then (Some (errkind_BadRequest ''invalid content-length''), data, body r)
             else if v \<ge> maxRequestLen then
               (Some (errkind_Public ''payload too large'' StatusRequestEntityTooLarge), data, body r)
             else
               (case ReadFull (body r) (nat v) of
                  (Inl e, b') \<Rightarrow> (Some (errkind_BadRequest ''cannot read full content''), data, b')
                | (Inr buf, b') \<Rightarrow>
                    (None, set_metadata (data\<lparr>Content := buf\<rparr>) r, b')))
      else
        (case ReadAll_Limit (body r) (nat maxRequestLen) of
           (Inl e, b') \<Rightarrow> (Some (errkind_BadRequest ''cannot read all content''), data, b')
         | (Inr content, b') \<Rightarrow>
             if int (length content) \<ge> maxRequestLen then
               (Some (errkind_Public ''payload too large'' StatusRequestEntityTooLarge), data, b')
             else (None, set_metadata (data\<lparr>Content := content\<rparr>) r, b')))"

subsection \<open>Compression and JSON, as the standard library provides them\<close>

text \<open>
  The packages \<^verbatim>\<open>compress/flate\<close>, \<^verbatim>\<open>compress/gzip\<close> and
  \<^verbatim>\<open>encoding/json\<close> are not part of this repository; the buffer's operations are
  defined over any implementation of them.
  \<^item> \<open>flate_Copy\<close>: \<^verbatim>\<open>io.Copy\<close> from \<^verbatim>\<open>flate.NewReader(input)\<close>, the inflated
    bytes or the error;
  \<^item> \<open>gzip_NewReader\<close>: the error of \<^verbatim>\<open>gzip.NewReader(input)\<close> (a bad header), if
    any;
  \<^item> \<open>gzip_Copy\<close>: \<^verbatim>\<open>io.Copy\<close> from the gzip reader;
  \<^item> \<open>gzip_Write\<close>: the count and error of \<^verbatim>\<open>w.Write(content)\<close> on a gzip writer;
  \<^item> \<open>gzip_Close\<close>: the error of \<^verbatim>\<open>w.Close()\<close>;
  \<^item> \<open>gzip_Bytes\<close>: the bytes the writer has produced once closed.
\<close>

record codec =
  flate_Copy :: "bytes \<Rightarrow> error + bytes"
  gzip_NewReader :: "bytes \<Rightarrow> error option"
  gzip_Copy :: "bytes \<Rightarrow> error + bytes"
  gzip_Write :: "bytes \<Rightarrow> nat \<times> error option"
  gzip_Close :: "bytes \<Rightarrow> error option"
  gzip_Bytes :: "bytes \<Rightarrow> bytes"

text \<open>
  \<^verbatim>\<open>json.Marshal(v)\<close> and \<^verbatim>\<open>json.Unmarshal(data, v)\<close> over Go values of type
  \<open>'v\<close>. Unmarshal writes through the pointer it is given: it takes the target's
  value before the call and returns its value after it, also when it fails.
\<close>

record 'v json =
  json_Marshal :: "'v \<Rightarrow> error + bytes"
  json_Unmarshal :: "bytes \<Rightarrow> 'v \<Rightarrow> error option \<times> 'v"

text \<open>\<^verbatim>\<open>strings.Contains(s, substr)\<close>.\<close>

fun HasPrefix :: "string \<Rightarrow> string \<Rightarrow> bool" where
  "HasPrefix s [] = True"
| "HasPrefix [] (p # ps) = False"
| "HasPrefix (c # cs) (p # ps) = (c = p \<and> HasPrefix cs ps)"

fun Contains :: "string \<Rightarrow> string \<Rightarrow> bool" where
  "Contains [] substr = (substr = [])"
| "Contains (c # cs) substr = (HasPrefix (c # cs) substr \<or> Contains cs substr)"

subsection \<open>Decompress and CompressResponse\<close>

datatype reader = FlateReader bytes | GzipReader bytes

definition io_Copy :: "codec \<Rightarrow> reader \<Rightarrow> error + bytes" where
  "io_Copy lib rd = (case rd of FlateReader input \<Rightarrow> flate_Copy lib input
                              | GzipReader input \<Rightarrow> gzip_Copy lib input)"

definition Decompress :: "codec \<Rightarrow> rawData \<Rightarrow> error option \<times> rawData" where
  "Decompress lib data0 =
     (case IsCompressed data0 of
        (False, data) \<Rightarrow> (None, data)
      | (True, data) \<Rightarrow>
          (let input = Content data;
               rd = (if ContentEncoding data = ceDeflate then Inr (FlateReader input)
                     else if ContentEncoding data = ceGzip then
                       (case gzip_NewReader lib input of
                          Some err \<Rightarrow> Inl err
                        | None \<Rightarrow> Inr (GzipReader input))
                     else Inl (errors_With (errors_New ''unknown content-encoding'')
                                 ''content-encoding'' (ContentEncoding data)))
           in case rd of
                Inl err \<Rightarrow> (Some err, data)
              | Inr reader \<Rightarrow>
                  (case io_Copy lib reader of
                     Inl err \<Rightarrow> (Some err, data)
                   | Inr out \<Rightarrow>
                       (None, data\<lparr>Content := out, ContentEncoding := [],
                                  UncompressedLength := int (length out)\<rparr>))))"

definition overhead :: nat where
  "overhead = 24"

definition CompressResponse :: "codec \<Rightarrow> rawData \<Rightarrow> Request \<Rightarrow> error option \<times> rawData" where
  "CompressResponse lib data0 r =
     (case IsCompressed data0 of
        (compressed, data) \<Rightarrow>
          if compressed \<or> length (Content data) < overhead * 4 then (None, data)
          else if \<not> Contains (Get (Header r) ''Accept-Encoding'') ceGzip then (None, data)
          else
            (case gzip_Write lib (Content data) of
               (n, Some err) \<Rightarrow> (Some err, data)
             | (n, None) \<Rightarrow>
                 if n \<noteq> length (Content data) then (Some (errors_New ''cannot compress''), data)
                 else
                   (case gzip_Close lib (Content data) of
                      Some err \<Rightarrow> (Some err, data)
                    | None \<Rightarrow>
                        (let compressedBytes = gzip_Bytes lib (Content data) in
                         if length compressedBytes + overhead < length (Content data) then
                           (None, data\<lparr>UncompressedLength := int (length (Content data)),
                                      Content := compressedBytes,
                                      ContentEncoding := ceGzip\<rparr>)
                         else (None, data)))))"

subsection \<open>UnmarshalTo and MarshalFrom\<close>

definition UnmarshalTo :: "codec \<Rightarrow> 'v json \<Rightarrow> rawData \<Rightarrow> 'v \<Rightarrow> error option \<times> rawData \<times> 'v" where
  "UnmarshalTo lib js data0 v =
     (case Decompress lib data0 of
        (Some err, data) \<Rightarrow> (Some (errkind_BadRequest ''cannot decompress payload''), data, v)
      | (None, data) \<Rightarrow>
          (case json_Unmarshal js (Content data) v of
             (Some err, v') \<Rightarrow> (Some (errkind_BadRequest ''invalid JSON payload''), data, v')
           | (None, v') \<Rightarrow> (None, data, v')))"

definition MarshalFrom :: "'v json \<Rightarrow> rawData \<Rightarrow> 'v \<Rightarrow> error option \<times> rawData" where
  "MarshalFrom js data v =
     (case json_Marshal js v of
        Inl err \<Rightarrow> (Some err, data)
      | Inr b \<Rightarrow>
          (None, data\<lparr>Content := b, ContentType := ''application/json'',
                     ContentEncoding := [], UncompressedLength := int (length b)\<rparr>))"


section \<open>Values: the query parameter reader (query.go)\<close>

text \<open>
  What query.go takes from outside the repository, as parameters of the model:
  \<^item> \<open>unicode_TrimSpace\<close>, \<open>unicode_ToLower\<close>: \<^verbatim>\<open>strings.TrimSpace\<close> and
    \<^verbatim>\<open>strings.ToLower\<close> on a string with a byte outside ASCII (on an ASCII string both
    are defined below, as the standard library computes them);
  \<^item> \<open>time_Parse layout s\<close>: \<^verbatim>\<open>time.Parse\<close>, \<open>None\<close> when it returns an error;
    \<open>time_zero\<close> is \<^verbatim>\<open>time.Time{}\<close>;
  \<^item> \<open>local_DateParse\<close>, \<open>date_zero\<close>: \<^verbatim>\<open>local.DateParse\<close> and \<^verbatim>\<open>local.Date{}\<close>;
  \<^item> \<open>stringset_Values\<close>: the order in which \<^verbatim>\<open>stringset.Set.Values()\<close> lists the
    members of a set.
\<close>

record ('t, 'd) golib =
  unicode_TrimSpace :: "string \<Rightarrow> string"
  unicode_ToLower :: "string \<Rightarrow> string"
  time_Parse :: "string \<Rightarrow> string \<Rightarrow> 't option"
  time_zero :: 't
  local_DateParse :: "string \<Rightarrow> 'd option"
  date_zero :: 'd
  stringset_Values :: "string list \<Rightarrow> string list"

definition is_ascii :: "char \<Rightarrow> bool" where
  "is_ascii c = ((of_char c :: nat) < 128)"

definition is_ascii_space :: "char \<Rightarrow> bool" where
  "is_ascii_space c = (let n = (of_char c :: nat) in (9 \<le> n \<and> n \<le> 13) \<or> n = 32)"

definition ascii_lower :: "char \<Rightarrow> char" where
  "ascii_lower c = (let n = (of_char c :: nat) in if 65 \<le> n \<and> n \<le> 90 then char_of (n + 32) else c)"

definition TrimSpace :: "('t, 'd) golib \<Rightarrow> string \<Rightarrow> string" where
  "TrimSpace lib s =
     (if list_all is_ascii s then rev (dropWhile is_ascii_space (rev (dropWhile is_ascii_space s)))
      else unicode_TrimSpace lib s)"

definition ToLower :: "('t, 'd) golib \<Rightarrow> string \<Rightarrow> string" where
  "ToLower lib s = (if list_all is_ascii s then map ascii_lower s else unicode_ToLower lib s)"

fun Join :: "string list \<Rightarrow> string \<Rightarrow> string" where
  "Join [] sep = []"
| "Join [x] sep = x"
| "Join (x # y # ys) sep = x @ sep @ Join (y # ys) sep"

definition RFC3339 :: string where "RFC3339 = ''2006-01-02T15:04:05Z07:00''"
definition RFC3339Nano :: string where "RFC3339Nano = ''2006-01-02T15:04:05.999999999Z07:00''"

text \<open>
  \<^verbatim>\<open>stringset.Set\<close> is a Go map from string to the empty struct. It is represented by
  the list of its keys; adding a key that is already there changes nothing.
\<close>

type_synonym stringset = "string list"

definition stringset_New :: stringset where
  "stringset_New = []"

definition stringset_Add :: "stringset \<Rightarrow> string \<Rightarrow> stringset" where
  "stringset_Add ss s = (if s \<in> set ss then ss else ss @ [s])"

definition stringset_Len :: "stringset \<Rightarrow> nat" where
  "stringset_Len ss = length ss"

text \<open>
  The struct \<^verbatim>\<open>Values\<close>. Its field \<^verbatim>\<open>values\<close> (a \<^verbatim>\<open>url.Values\<close>) is named
  \<open>url_values\<close> here. \<^verbatim>\<open>Query\<close> takes the parsed query string of the request.
\<close>

record Values =
  url_values :: multimap
  invalidParams :: stringset

definition Query :: "Request \<Rightarrow> Values" where
  "Query r = \<lparr>url_values = URL_Query r, invalidParams = stringset_New\<rparr>"

definition Err :: "('t, 'd) golib \<Rightarrow> Values \<Rightarrow> error option" where
  "Err lib v =
     (if stringset_Len (invalidParams v) = 0 then None
      else Some (errkind_BadRequest
             (''invalid value(s) in query string: '' @
              Join (stringset_Values lib (invalidParams v)) '','')))"

definition exists :: "Values \<Rightarrow> string \<Rightarrow> bool" where
  "exists v name = (url_values v name \<noteq> None)"

definition parseTime :: "('t, 'd) golib \<Rightarrow> Values \<Rightarrow> string \<Rightarrow> 't \<times> bool \<times> Values" where
  "parseTime lib v name =
     (if \<not> exists v name then (time_zero lib, False, v)
      else
        (let s = TrimSpace lib (Get (url_values v) name) in
         if s = [] \<or> s = ''undefined'' \<or> s = ''null'' then (time_zero lib, False, v)
         else
           (case time_Parse lib RFC3339Nano s of
              Some t \<Rightarrow> (t, True, v)
            | None \<Rightarrow>
                (case time_Parse lib RFC3339 s of
                   Some t \<Rightarrow> (t, True, v)
                 | None \<Rightarrow>
                     (time_zero lib, False,
                      v\<lparr>invalidParams := stringset_Add (invalidParams v) name\<rparr>)))))"

definition parseDate :: "('t, 'd) golib \<Rightarrow> Values \<Rightarrow> string \<Rightarrow> 'd \<times> bool \<times> Values" where
  "parseDate lib v name =
     (if \<not> exists v name then (date_zero lib, False, v)
      else
        (let s = TrimSpace lib (Get (url_values v) name) in
         if s = [] \<or> s = ''undefined'' \<or> s = ''null'' then (date_zero lib, False, v)
         else
           (case local_DateParse lib s of
              None \<Rightarrow>
                (date_zero lib, False, v\<lparr>invalidParams := stringset_Add (invalidParams v) name\<rparr>)
            | Some d \<Rightarrow> (d, True, v))))"

definition parseInt :: "Values \<Rightarrow> string \<Rightarrow> int \<times> bool \<times> Values" where
  "parseInt v name =
     (if \<not> exists v name then (0, False, v)
      else
        (case Atoi (Get (url_values v) name) of
           Inl err \<Rightarrow> (0, False, v\<lparr>invalidParams := stringset_Add (invalidParams v) name\<rparr>)
         | Inr n \<Rightarrow> (n, True, v)))"

definition parseBool :: "('t, 'd) golib \<Rightarrow> Values \<Rightarrow> string \<Rightarrow> bool \<times> bool \<times> Values" where
  "parseBool lib v name =
     (if \<not> exists v name then (False, False, v)
      else
        (let s = ToLower lib (Get (url_values v) name) in
         if s = ''1'' \<or> s = ''true'' \<or> s = ''yes'' \<or> s = ''t'' then (True, True, v)
         else if s = ''0'' \<or> s = ''false'' \<or> s = ''no'' \<or> s = ''f'' then (False, True, v)
         else (False, False, v\<lparr>invalidParams := stringset_Add (invalidParams v) name\<rparr>)))"

text \<open>
  The accessors. Each returns, after its Go results, the \<^verbatim>\<open>Values\<close> as the call
  leaves it (the receiver is a pointer).
\<close>

definition LookupInt :: "Values \<Rightarrow> string \<Rightarrow> int \<times> bool \<times> Values" where
  "LookupInt v name = parseInt v name"

definition GetInt :: "Values \<Rightarrow> string \<Rightarrow> int \<times> Values" where
  "GetInt v name = (case parseInt v name of (n, _, v') \<Rightarrow> (n, v'))"

definition LookupTime :: "('t, 'd) golib \<Rightarrow> Values \<Rightarrow> string \<Rightarrow> 't \<times> bool \<times> Values" where
  "LookupTime lib v name = parseTime lib v name"

definition GetTime :: "('t, 'd) golib \<Rightarrow> Values \<Rightarrow> string \<Rightarrow> 't \<times> Values" where
  "GetTime lib v name = (case parseTime lib v name of (t, _, v') \<Rightarrow> (t, v'))"

definition LookupDate :: "('t, 'd) golib \<Rightarrow> Values \<Rightarrow> string \<Rightarrow> 'd \<times> bool \<times> Values" where
  "LookupDate lib v name = parseDate lib v name"

definition GetDate :: "('t, 'd) golib \<Rightarrow> Values \<Rightarrow> string \<Rightarrow> 'd \<times> Values" where
  "GetDate lib v name = (case parseDate lib v name of (d, _, v') \<Rightarrow> (d, v'))"

definition LookupBool :: "('t, 'd) golib \<Rightarrow> Values \<Rightarrow> string \<Rightarrow> bool \<times> bool \<times> Values" where
  "LookupBool lib v name = parseBool lib v name"

definition GetBool :: "('t, 'd) golib \<Rightarrow> Values \<Rightarrow> string \<Rightarrow> bool \<times> Values" where
  "GetBool lib v name = (case parseBool lib v name of (b, _, v') \<Rightarrow> (b, v'))"

definition LookupString :: "Values \<Rightarrow> string \<Rightarrow> string \<times> bool \<times> Values" where
  "LookupString v name = (if exists v name then (Get (url_values v) name, True, v) else ([], False, v))"

definition GetString :: "Values \<Rightarrow> string \<Rightarrow> string \<times> Values" where
  "GetString v name = (if exists v name then (Get (url_values v) name, v) else ([], v))"

text \<open>
  A handler calls accessors one after the other on the same \<^verbatim>\<open>Values\<close>:
  \<open>after\<close> is the state one call leaves, \<open>run\<close> the state a sequence of calls leaves.
\<close>

datatype accessor =
    Call_LookupInt string | Call_GetInt string
  | Call_LookupTime string | Call_GetTime string
  | Call_LookupDate string | Call_GetDate string
  | Call_LookupBool string | Call_GetBool string
  | Call_LookupString string | Call_GetString string

fun after :: "('t, 'd) golib \<Rightarrow> Values \<Rightarrow> accessor \<Rightarrow> Values" where
  "after lib v (Call_LookupInt name) = snd (snd (LookupInt v name))"
| "after lib v (Call_GetInt name) = snd (GetInt v name)"
| "after lib v (Call_LookupTime name) = snd (snd (LookupTime lib v name))"
| "after lib v (Call_GetTime name) = snd (GetTime lib v name)"
| "after lib v (Call_LookupDate name) = snd (snd (LookupDate lib v name))"
| "after lib v (Call_GetDate name) = snd (GetDate lib v name)"
| "after lib v (Call_LookupBool name) = snd (snd (LookupBool lib v name))"
| "after lib v (Call_GetBool name) = snd (GetBool lib v name)"
| "after lib v (Call_LookupString name) = snd (snd (LookupString v name))"
| "after lib v (Call_GetString name) = snd (GetString v name)"

fun run :: "('t, 'd) golib \<Rightarrow> Values \<Rightarrow> accessor list \<Rightarrow> Values" where
  "run lib v [] = v"
| "run lib v (c # cs) = run lib (after lib v c) cs"

fun name_of :: "accessor \<Rightarrow> string" where
  "name_of (Call_LookupInt name) = name"
| "name_of (Call_GetInt name) = name"
| "name_of (Call_LookupTime name) = name"
| "name_of (Call_GetTime name) = name"
| "name_of (Call_LookupDate name) = name"
| "name_of (Call_GetDate name) = name"
| "name_of (Call_LookupBool name) = name"
| "name_of (Call_GetBool name) = name"
| "name_of (Call_LookupString name) = name"
| "name_of (Call_GetString name) = name"

fun is_string_call :: "accessor \<Rightarrow> bool" where
  "is_string_call (Call_LookupString name) = True"
| "is_string_call (Call_GetString name) = True"
| "is_string_call c = False"


text \<open>
  \<open>fails lib m c\<close>: in the query \<open>m\<close>, the name the call \<open>c\<close> asks for is present and
  its first value does not parse as the type \<open>c\<close> asks for.
\<close>

fun fails :: "('t, 'd) golib \<Rightarrow> multimap \<Rightarrow> accessor \<Rightarrow> bool" where
  "fails lib m (Call_LookupString name) = False"
| "fails lib m (Call_GetString name) = False"
| "fails lib m c =
     (m (name_of c) \<noteq> None \<and>
      (let raw = Get m (name_of c); s = TrimSpace lib raw in
       case c of
         Call_LookupInt _ \<Rightarrow> isl (Atoi raw)
       | Call_GetInt _ \<Rightarrow> isl (Atoi raw)
       | Call_LookupBool _ \<Rightarrow>
           ToLower lib raw \<notin> set [''1'', ''true'', ''yes'', ''t'', ''0'', ''false'', ''no'', ''f'']
       | Call_GetBool _ \<Rightarrow>
           ToLower lib raw \<notin> set [''1'', ''true'', ''yes'', ''t'', ''0'', ''false'', ''no'', ''f'']
       | Call_LookupTime _ \<Rightarrow>
           s \<notin> set [[], ''undefined'', ''null''] \<and>
           time_Parse lib RFC3339Nano s = None \<and> time_Parse lib RFC3339 s = None
       | Call_GetTime _ \<Rightarrow>
           s \<notin> set [[], ''undefined'', ''null''] \<and>
           time_Parse lib RFC3339Nano s = None \<and> time_Parse lib RFC3339 s = None
       | Call_LookupDate _ \<Rightarrow>
           s \<notin> set [[], ''undefined'', ''null''] \<and> local_DateParse lib s = None
       | Call_GetDate _ \<Rightarrow>
           s \<notin> set [[], ''undefined'', ''null''] \<and> local_DateParse lib s = None
       | _ \<Rightarrow> False))"

section \<open>WriteError: the error presentation policy\<close>

text \<open>
  \<^verbatim>\<open>WriteError\<close> takes any Go \<^verbatim>\<open>error\<close>; the type \<open>'e\<close> stands for the error
  values. What it asks of an error goes through the packages \<^verbatim>\<open>errors\<close> and
  \<^verbatim>\<open>errkind\<close> and through type assertions, all outside the repository, and is a
  parameter of the model:
  \<^item> \<open>errors_Cause\<close>: \<^verbatim>\<open>errors.Cause(err)\<close>;
  \<^item> \<open>has_PublicStatusCode\<close>, \<open>has_PublicMessage\<close>, \<open>has_PublicCode\<close>: whether the
    type assertion to the interface with that one method succeeds;
  \<^item> \<open>errkind_StatusCode\<close>, \<open>errkind_Code\<close>: \<^verbatim>\<open>errkind.StatusCode\<close>,
    \<^verbatim>\<open>errkind.Code\<close>;
  \<^item> \<open>Message_method\<close>: the result of the method \<^verbatim>\<open>Message()\<close>, \<open>None\<close> when the
    error does not have it; \<open>Error_method\<close>: the result of \<^verbatim>\<open>Error()\<close>;
  \<^item> \<open>errkind_Public_fn\<close>: \<^verbatim>\<open>errkind.Public(message, status)\<close>;
  \<^item> \<open>http_StatusText\<close>: \<^verbatim>\<open>http.StatusText\<close>;
  \<^item> \<open>json_string\<close>: the JSON encoding of a Go string, quotes included, as
    \<^verbatim>\<open>encoding/json\<close> writes it.
\<close>

record 'e extern =
  errors_Cause :: "'e \<Rightarrow> 'e"
  has_PublicStatusCode :: "'e \<Rightarrow> bool"
  errkind_StatusCode :: "'e \<Rightarrow> int"
  has_PublicMessage :: "'e \<Rightarrow> bool"
  Message_method :: "'e \<Rightarrow> string option"
  Error_method :: "'e \<Rightarrow> string"
  has_PublicCode :: "'e \<Rightarrow> bool"
  errkind_Code :: "'e \<Rightarrow> string"
  errkind_Public_fn :: "string \<Rightarrow> int \<Rightarrow> 'e"
  http_StatusText :: "int \<Rightarrow> string"
  json_string :: "string \<Rightarrow> string"

text \<open>
  \<^verbatim>\<open>writeerror.Content\<close>. The field \<^verbatim>\<open>Err\<close> is named \<open>Err'\<close> here. The
  status field is declared as \<^verbatim>\<open>Status\<close> in package writeerror and read under that
  name by \<^verbatim>\<open>defaultMarshalContent\<close>; \<^verbatim>\<open>WriteError\<close> writes it as
  \<^verbatim>\<open>content.StatusCode\<close>. The model has the one field.
\<close>

record 'e Content =
  Message :: string
  Status :: int
  Code :: string
  Trace :: string
  Err' :: "'e option"

text \<open>
  \<^verbatim>\<open>writeerror.Config\<close>: four callbacks, each possibly nil. A callback is a function
  of its arguments: it reads the request and the content it is handed.
  \<^verbatim>\<open>ErrorWritten\<close> returns nothing in Go and exists for its effect (logging); the
  model has it return the entries it logs, of a type \<open>'l\<close>.
  \<^verbatim>\<open>ConfigFromRequest\<close> returns a \<^verbatim>\<open>Config\<close> none of whose callbacks is nil: the
  record \<open>Callbacks\<close>.
\<close>

record ('e, 'l) Config =
  GetTrace :: "(Request \<Rightarrow> string) option"
  IsTrusted :: "(Request \<Rightarrow> bool) option"
  MarshalContent :: "('e Content \<Rightarrow> bytes) option"
  ErrorWritten :: "(Request \<Rightarrow> 'e Content \<Rightarrow> 'l list) option"

record ('e, 'l) Callbacks =
  call_GetTrace :: "Request \<Rightarrow> string"
  call_IsTrusted :: "Request \<Rightarrow> bool"
  call_MarshalContent :: "'e Content \<Rightarrow> bytes"
  call_ErrorWritten :: "Request \<Rightarrow> 'e Content \<Rightarrow> 'l list"

text \<open>The decimal digits of a number (\<^verbatim>\<open>%d\<close>, and an integer in JSON).\<close>

function nat_digits :: "nat \<Rightarrow> string" where
  "nat_digits n = (if n < 10 then [char_of (48 + n)]
                   else nat_digits (n div 10) @ [char_of (48 + n mod 10)])"
  by pat_completeness auto
termination
  by (relation "measure (\<lambda>n. n)") auto

declare nat_digits.simps [simp del]

definition Itoa :: "int \<Rightarrow> string" where
  "Itoa i = (if i < 0 then CHR ''-'' # nat_digits (nat (- i)) else nat_digits (nat i))"

definition defaultGetTrace :: "Request \<Rightarrow> string" where
  "defaultGetTrace r = []"

definition defaultIsTrusted :: "Request \<Rightarrow> bool" where
  "defaultIsTrusted r = False"

text \<open>
  \<^verbatim>\<open>defaultMarshalContent\<close>: the fields of the payload struct that the encoder
  writes, in order, each with its encoded value (\<^verbatim>\<open>omitempty\<close> drops an empty code,
  trace or detail); then the indented object, and the newline \<^verbatim>\<open>Encode\<close> appends.
\<close>

definition payload_fields :: "'e extern \<Rightarrow> 'e Content \<Rightarrow> (string \<times> string) list" where
  "payload_fields lib content =
     (let detail = (case Err' content of None \<Rightarrow> [] | Some err \<Rightarrow> Error_method lib err) in
      [(''message'', json_string lib (Message content)),
       (''status'', Itoa (Status content))] @
      (if Code content \<noteq> [] then [(''code'', json_string lib (Code content))] else []) @
      (if Trace content \<noteq> [] then [(''trace'', json_string lib (Trace content))] else []) @
      (if detail \<noteq> [] then [(''detail'', json_string lib detail)] else []))"

definition field_line :: "string \<times> string \<Rightarrow> string" where
  "field_line kv = ''    '' @ [CHR 0x22] @ fst kv @ [CHR 0x22] @ '': '' @ snd kv"

definition encode_payload :: "(string \<times> string) list \<Rightarrow> string" where
  "encode_payload kvs =
     ''{'' @ [CHR 0x0A] @
     ''  '' @ [CHR 0x22] @ ''error'' @ [CHR 0x22] @ '': {'' @ [CHR 0x0A] @
     Join (map field_line kvs) ('','' @ [CHR 0x0A]) @ [CHR 0x0A] @
     ''  }'' @ [CHR 0x0A] @
     ''}'' @ [CHR 0x0A]"

definition defaultMarshalContent :: "'e extern \<Rightarrow> 'e Content \<Rightarrow> bytes" where
  "defaultMarshalContent lib content = map of_char (encode_payload (payload_fields lib content))"

definition defaultErrorWritten :: "Request \<Rightarrow> 'e Content \<Rightarrow> 'l list" where
  "defaultErrorWritten r content = []"

definition Default :: "'e extern \<Rightarrow> ('e, 'l) Callbacks" where
  "Default lib =
     \<lparr>call_GetTrace = defaultGetTrace, call_IsTrusted = defaultIsTrusted,
      call_MarshalContent = defaultMarshalContent lib,
      call_ErrorWritten = defaultErrorWritten\<rparr>"

text \<open>
  \<^verbatim>\<open>ConfigFromRequest\<close>. Its argument is the \<^verbatim>\<open>Config\<close> found in the request's
  context under \<^verbatim>\<open>errorCallbackKey\<close>; when there is none, the type assertion yields
  the zero \<^verbatim>\<open>Config\<close>, \<open>zero_Config\<close>.
\<close>

definition zero_Config :: "('e, 'l) Config" where
  "zero_Config = \<lparr>GetTrace = None, IsTrusted = None, MarshalContent = None, ErrorWritten = None\<rparr>"

definition ConfigFromRequest :: "'e extern \<Rightarrow> ('e, 'l) Config \<Rightarrow> ('e, 'l) Callbacks" where
  "ConfigFromRequest lib config =
     \<lparr>call_GetTrace = (case GetTrace config of None \<Rightarrow> call_GetTrace (Default lib :: ('e, 'l) Callbacks) | Some f \<Rightarrow> f),
      call_IsTrusted = (case IsTrusted config of None \<Rightarrow> call_IsTrusted (Default lib :: ('e, 'l) Callbacks) | Some f \<Rightarrow> f),
      call_MarshalContent =
        (case MarshalContent config of None \<Rightarrow> call_MarshalContent (Default lib :: ('e, 'l) Callbacks) | Some f \<Rightarrow> f),
      call_ErrorWritten =
        (case ErrorWritten config of None \<Rightarrow> call_ErrorWritten (Default lib) | Some f \<Rightarrow> f)\<rparr>"

text \<open>
  The \<^verbatim>\<open>http.ResponseWriter\<close> is an interface: what \<^verbatim>\<open>WriteError\<close> does to it is
  the sequence of its calls.
\<close>

datatype w_call = Header_Set string string | WriteHeader int | Write bytes

text \<open>
  The block of \<^verbatim>\<open>WriteError\<close> that builds the content to send to the client.
\<close>

definition build_content :: "'e extern \<Rightarrow> ('e, 'l) Callbacks \<Rightarrow> Request \<Rightarrow> 'e \<Rightarrow> 'e Content" where
  "build_content lib config r err =
     (let cause = errors_Cause lib err;
          c0 = \<lparr>Message = [], Status = 0, Code = [], Trace = [], Err' = None\<rparr>;
          c1 = (if has_PublicStatusCode lib cause then c0\<lparr>Status := errkind_StatusCode lib cause\<rparr>
                else c0);
          c2 = (if Status c1 < 400 \<or> Status c1 > 599 then c1\<lparr>Status := StatusInternalServerError\<rparr>
                else c1);
          c3 = (if has_PublicMessage lib cause then
                  (case Message_method lib cause of
                     Some m \<Rightarrow> c2\<lparr>Message := m\<rparr>
                   | None \<Rightarrow> c2\<lparr>Message := Error_method lib cause\<rparr>)
                else c2);
          c4 = (if Message c3 = [] then c3\<lparr>Message := http_StatusText lib (Status c3)\<rparr> else c3);
          c5 = (if has_PublicCode lib cause then c4\<lparr>Code := errkind_Code lib cause\<rparr> else c4);
          c6 = c5\<lparr>Trace := call_GetTrace config r\<rparr>
      in if call_IsTrusted config r then c6\<lparr>Err' := Some err\<rparr> else c6)"

definition nil_error :: "'e extern \<Rightarrow> 'e" where
  "nil_error lib = errkind_Public_fn lib ''no information available'' StatusInternalServerError"

text \<open>
  \<^verbatim>\<open>WriteError\<close>: the calls on the response writer, and what the post-write
  callback logs.
\<close>

definition WriteError :: "'e extern \<Rightarrow> ('e, 'l) Config \<Rightarrow> Request \<Rightarrow> 'e option \<Rightarrow> w_call list \<times> 'l list" where
  "WriteError lib attached r err0 =
     (let err = (case err0 of None \<Rightarrow> nil_error lib | Some e \<Rightarrow> e);
          config = ConfigFromRequest lib attached;
          content = build_content lib config r err;
          data = call_MarshalContent config content;
          w = [Header_Set ''Content-Type'' ''application/json'',
               Header_Set ''Content-Length'' (Itoa (int (length data))),
               Header_Set ''X-Content-Type-Options'' ''nosniff'',
               WriteHeader (Status content),
               Write data];
          content' = content\<lparr>Err' := Some err\<rparr>
      in (w, call_ErrorWritten config r content'))"

fun is_WriteHeader :: "w_call \<Rightarrow> bool" where
  "is_WriteHeader (WriteHeader n) = True"
| "is_WriteHeader c = False"

text \<open>
  What an error's cause makes public: its status, message and code, each only when the
  cause has the capability.
\<close>

definition public_status :: "'e extern \<Rightarrow> 'e \<Rightarrow> int option" where
  "public_status lib cause =
     (if has_PublicStatusCode lib cause then Some (errkind_StatusCode lib cause) else None)"

definition public_message :: "'e extern \<Rightarrow> 'e \<Rightarrow> string option" where
  "public_message lib cause =
     (if has_PublicMessage lib cause then
        Some (case Message_method lib cause of Some m \<Rightarrow> m | None \<Rightarrow> Error_method lib cause)
      else None)"

definition public_code :: "'e extern \<Rightarrow> 'e \<Rightarrow> string option" where
  "public_code lib cause =
     (if has_PublicCode lib cause then Some (errkind_Code lib cause) else None)"

section \<open>Example inputs\<close>

text \<open>
  Concrete requests, buffers and library instances, used to evaluate the theorems below
  at explicit inputs. The library instances are arbitrary inhabitants of the interfaces
  the model is parametrised over; nothing is proved about them.
\<close>

text \<open>
  The request of the package's own test: a declared length of 9999999999 over a body
  whose every read fails.
\<close>

definition huge_request :: Request where
  "huge_request =
     \<lparr>Header = [''Content-Type'' \<mapsto> [''application/json''],
                 ''Content-Length'' \<mapsto> [''9999999999'']],
      body = \<lparr>avail = [], ending = ReadFails\<rparr>,
      URL_Query = Map.empty\<rparr>"

definition empty_data :: rawData where
  "empty_data = \<lparr>ContentType = [], ContentEncoding = [], Content = [], UncompressedLength = 0\<rparr>"

definition example_codec :: codec where
  "example_codec =
     \<lparr>flate_Copy = (\<lambda>input. Inl (LibError ''flate: corrupt input'')),
      gzip_NewReader = (\<lambda>input. if take 2 input = [0x1f, 0x8b] then None
                                 else Some (LibError ''gzip: invalid header'')),
      gzip_Copy = (\<lambda>input. Inr (drop 2 input)),
      gzip_Write = (\<lambda>content. (length content, None)),
      gzip_Close = (\<lambda>content. None),
      gzip_Bytes = (\<lambda>content. [0x1f, 0x8b] @ remdups_adj content)\<rparr>"


text \<open>
  A Go struct with an exported field \<^verbatim>\<open>Name\<close> and an unexported field
  \<^verbatim>\<open>secret\<close>, under \<^verbatim>\<open>encoding/json\<close>: \<^verbatim>\<open>Marshal\<close> writes the exported field
  only, and \<^verbatim>\<open>Unmarshal\<close> sets the exported field of its target and leaves the
  unexported one as it is. (The decoder of this instance knows the one document the
  example needs.)
\<close>

record profile =
  Name :: string
  secret :: string

definition encode_profile :: "string \<Rightarrow> bytes" where
  "encode_profile name = map of_char (''{'' @ [CHR 0x22] @ ''Name'' @ [CHR 0x22] @ '':'' @
                                      [CHR 0x22] @ name @ [CHR 0x22] @ ''}'')"

definition profile_json :: "profile json" where
  "profile_json =
     \<lparr>json_Marshal = (\<lambda>v. Inr (encode_profile (Name v))),
      json_Unmarshal = (\<lambda>b target.
         if b = encode_profile ''ann'' then (None, target\<lparr>Name := ''ann''\<rparr>)
         else (Some (LibError ''invalid character''), target))\<rparr>"

definition brotli_data :: rawData where
  "brotli_data = \<lparr>ContentType = ''application/json'', ContentEncoding = ''br'',
                   Content = [0x0b, 0x02, 0x80], UncompressedLength = 0\<rparr>"

definition blank_data :: rawData where
  "blank_data = \<lparr>ContentType = ''application/json'', ContentEncoding = [],
                  Content = replicate 100 0x20, UncompressedLength = 100\<rparr>"

definition request_with :: "string \<Rightarrow> string \<Rightarrow> Request" where
  "request_with key val =
     \<lparr>Header = [key \<mapsto> [val]], body = \<lparr>avail = [], ending = EOF\<rparr>, URL_Query = Map.empty\<rparr>"

definition example_golib :: "(nat, nat \<times> nat \<times> nat) golib" where
  "example_golib =
     \<lparr>unicode_TrimSpace = (\<lambda>s. s),
      unicode_ToLower = (\<lambda>s. s),
      time_Parse = (\<lambda>layout s. if layout = RFC3339 \<and> s = ''2020-01-02T13:14:15Z''
                                 then Some 1577970855 else None),
      time_zero = 0,
      local_DateParse = (\<lambda>s. if s = ''2099-12-31'' then Some (2099, 12, 31) else None),
      date_zero = (1, 1, 1),
      stringset_Values = (\<lambda>ss. ss)\<rparr>"

text \<open>The query string \<^verbatim>\<open>?int=x&int=2&b=maybe&s=&t=null\<close>.\<close>

definition example_query :: Request where
  "example_query =
     \<lparr>Header = Map.empty, body = \<lparr>avail = [], ending = EOF\<rparr>,
      URL_Query = [''int'' \<mapsto> [''x'', ''2''], ''b'' \<mapsto> [''maybe''], ''s'' \<mapsto> [[]],
                   ''t'' \<mapsto> [''null'']]\<rparr>"

definition example_calls :: "accessor list" where
  "example_calls =
     [Call_GetInt ''int'', Call_LookupInt ''int'', Call_GetBool ''b'', Call_GetString ''s'',
      Call_GetTime ''t'', Call_GetInt ''absent'']"

text \<open>
  An instance of the error interfaces over the error values of this file: the
  \<^verbatim>\<open>errkind\<close> errors are public, with a \<^verbatim>\<open>Message()\<close> method; \<^verbatim>\<open>errors.Wrap\<close>
  keeps the wrapped error as its cause.
\<close>

fun example_Cause :: "error \<Rightarrow> error" where
  "example_Cause (errors_Wrap e m) = example_Cause e"
| "example_Cause e = e"

fun example_Error :: "error \<Rightarrow> string" where
  "example_Error (errkind_BadRequest m) = m"
| "example_Error (errkind_Public m st) = m"
| "example_Error (errors_New m) = m"
| "example_Error (errors_With e k v) = example_Error e @ '' '' @ k @ ''='' @ v"
| "example_Error (errors_Wrap e m) = m @ '': '' @ example_Error e"
| "example_Error (LibError m) = m"

fun example_public :: "error \<Rightarrow> (string \<times> int) option" where
  "example_public (errkind_BadRequest m) = Some (m, 400)"
| "example_public (errkind_Public m st) = Some (m, st)"
| "example_public e = None"

definition example_extern :: "error extern" where
  "example_extern =
     \<lparr>errors_Cause = example_Cause,
      has_PublicStatusCode = (\<lambda>e. example_public e \<noteq> None),
      errkind_StatusCode = (\<lambda>e. case example_public e of Some (m, st) \<Rightarrow> st | None \<Rightarrow> 500),
      has_PublicMessage = (\<lambda>e. example_public e \<noteq> None),
      Message_method = (\<lambda>e. map_option fst (example_public e)),
      Error_method = example_Error,
      has_PublicCode = (\<lambda>e. False),
      errkind_Code = (\<lambda>e. []),
      errkind_Public_fn = errkind_Public,
      http_StatusText = (\<lambda>n. if n = 500 then ''Internal Server Error'' else []),
      json_string = (\<lambda>s. [CHR 0x22] @ s @ [CHR 0x22])\<rparr>"

definition not_found :: error where
  "not_found = errkind_Public ''not found'' 404"

definition wrapped_not_found :: error where
  "wrapped_not_found = errors_Wrap (errkind_Public ''not found'' 404) ''no row for user 17''"

definition no_config :: "(error, string) Config" where
  "no_config = zero_Config"

section \<open>Reading a request with a declared length\<close>

lemma maxRequestLen_value: "maxRequestLen = 16777216"
  by (simp add: maxRequestLen_def)

text \<open>
  C1. When the request carries a Content-Length value \<open>cl\<close> (a non-empty header
  value), \<^verbatim>\<open>rawData.ReadRequest\<close>
  \<^item> fails with BadRequest when \<open>cl\<close> does not parse as a 64-bit integer or parses to
    a negative one, leaving buffer and body untouched;
  \<^item> fails with the public error of status 413 when the parsed length is at least
    16 MiB (16777216), leaving the buffer (so its content) and the body untouched;
  \<^item> otherwise fails with BadRequest when the body delivers fewer bytes than declared,
    the buffer still untouched;
  \<^item> otherwise succeeds, the content being exactly the first \<open>v\<close> bytes of the body,
    and the body stream advanced by exactly \<open>v\<close> bytes.
\<close>

theorem ReadRequest_declared_length:
  assumes "Get (Header r) ''Content-Length'' = cl" and "cl \<noteq> []"
  shows "(case ParseInt cl 64 of
            Inl e \<Rightarrow>
              ReadRequest data r = (Some (errkind_BadRequest ''invalid content-length''), data, body r)
          | Inr v \<Rightarrow>
              if v < 0 then
                ReadRequest data r = (Some (errkind_BadRequest ''invalid content-length''), data, body r)
              else if v \<ge> 16777216 then
                ReadRequest data r = (Some (errkind_Public ''payload too large'' 413), data, body r)
                \<and> Content (fst (snd (ReadRequest data r))) = Content data
              else if length (avail (body r)) < nat v then
                fst (ReadRequest data r) = Some (errkind_BadRequest ''cannot read full content'')
                \<and> fst (snd (ReadRequest data r)) = data
              else
                fst (ReadRequest data r) = None
                \<and> Content (fst (snd (ReadRequest data r))) = take (nat v) (avail (body r))
                \<and> int (length (Content (fst (snd (ReadRequest data r))))) = v
                \<and> avail (snd (snd (ReadRequest data r))) = drop (nat v) (avail (body r)))"
proof (cases "ParseInt cl 64")
  case (Inl e)
  with assms show ?thesis by (simp add: ReadRequest_def)
next
  case (Inr v)
  have md: "Content (set_metadata d r) = Content d" for d
    by (simp add: set_metadata_def Let_def)
  from Inr assms show ?thesis
    by (simp add: ReadRequest_def maxRequestLen_value StatusRequestEntityTooLarge_def
        ReadFull_def md)
qed

theorem ReadRequest_declared_length_witness:
  "ReadRequest empty_data huge_request =
     (Some (errkind_Public ''payload too large'' 413), empty_data, body huge_request)"
proof -
  have g: "Get (Header huge_request) ''Content-Length'' = ''9999999999''"
    by (simp add: huge_request_def Get_def)
  have p: "ParseInt ''9999999999'' 64 = Inr 9999999999"
    by (simp add: ParseInt_def ParseUint_def is_digit_def digit_val_def)
  from ReadRequest_declared_length [OF g, of empty_data] p show ?thesis
    by simp
qed

section \<open>Properties of the payload buffer\<close>

text \<open>
  C9. Whenever \<^verbatim>\<open>Decompress\<close> returns an error, the buffer is exactly what it was:
  the encoding was neither empty nor \<^verbatim>\<open>identity\<close>, and the error is the
  decompressor's failure (deflate, gzip) or the unknown-encoding error (anything else).
  When it returns no error, either the buffer was not compressed and only an empty
  encoding has been replaced by \<^verbatim>\<open>identity\<close>, or the content is the decompressed
  output, the encoding is reset to empty and the uncompressed length is the new length.
\<close>

theorem Decompress_error_unchanged:
  "(case Decompress lib data of
      (Some err, data') \<Rightarrow>
         data' = data \<and> ContentEncoding data \<noteq> [] \<and> ContentEncoding data \<noteq> ''identity'' \<and>
         (if ContentEncoding data = ''deflate'' then flate_Copy lib (Content data) = Inl err
          else if ContentEncoding data = ''gzip'' then
            gzip_NewReader lib (Content data) = Some err \<or>
            (gzip_NewReader lib (Content data) = None \<and> gzip_Copy lib (Content data) = Inl err)
          else err = errors_With (errors_New ''unknown content-encoding'')
                       ''content-encoding'' (ContentEncoding data))
    | (None, data') \<Rightarrow>
         if ContentEncoding data = [] \<or> ContentEncoding data = ''identity'' then
           data' = data\<lparr>ContentEncoding := ''identity''\<rparr>
         else
           (\<exists>out. (if ContentEncoding data = ''deflate'' then flate_Copy lib (Content data)
                    else gzip_Copy lib (Content data)) = Inr out \<and>
                  data' = data\<lparr>Content := out, ContentEncoding := [],
                               UncompressedLength := int (length out)\<rparr>))"
  by (auto simp: Decompress_def IsCompressed_def io_Copy_def ceIdentity_def ceDeflate_def
      ceGzip_def Let_def split: option.splits sum.splits if_splits reader.splits)

theorem Decompress_error_unchanged_witness:
  "Decompress example_codec brotli_data =
     (Some (errors_With (errors_New ''unknown content-encoding'') ''content-encoding'' ''br''),
      brotli_data)"
  using Decompress_error_unchanged [where lib = example_codec and data = brotli_data]
  by (simp add: Decompress_def IsCompressed_def brotli_data_def ceIdentity_def ceDeflate_def
      ceGzip_def)

text \<open>
  C7, as the claim states it, fails: with no gzip in Accept-Encoding the call succeeds,
  but a buffer whose encoding is empty (as \<^verbatim>\<open>MarshalFrom\<close> leaves it) comes back with
  the encoding \<^verbatim>\<open>identity\<close>, written by \<^verbatim>\<open>IsCompressed\<close>.
\<close>

theorem CompressResponse_unchanged_counterexample:
  "\<not> Contains (Get (Header (request_with ''Accept-Encoding'' ''deflate'')) ''Accept-Encoding'') ''gzip''
   \<and> fst (CompressResponse example_codec blank_data (request_with ''Accept-Encoding'' ''deflate'')) = None
   \<and> snd (CompressResponse example_codec blank_data (request_with ''Accept-Encoding'' ''deflate''))
       \<noteq> blank_data"
  by (simp add: CompressResponse_def IsCompressed_def blank_data_def request_with_def Get_def
      ceIdentity_def ceGzip_def overhead_def)

text \<open>
  C7, amended. When the Accept-Encoding value does not contain \<^verbatim>\<open>gzip\<close> as a
  substring, \<^verbatim>\<open>CompressResponse\<close> returns no error and leaves content, content type
  and uncompressed length as they were; the encoding is as it was, except that an empty
  encoding has become \<^verbatim>\<open>identity\<close>. When the value contains the substring, the call
  behaves exactly as for the value \<^verbatim>\<open>gzip\<close> itself; \<^verbatim>\<open>gzip;q=0\<close> is such a value.
\<close>

theorem CompressResponse_accept_encoding:
  "(\<not> Contains (Get (Header r) ''Accept-Encoding'') ''gzip'' \<longrightarrow>
      CompressResponse lib data r =
        (None, data\<lparr>ContentEncoding :=
                 (if ContentEncoding data = [] then ''identity'' else ContentEncoding data)\<rparr>)) \<and>
   (Contains (Get (Header r) ''Accept-Encoding'') ''gzip'' \<longrightarrow>
      CompressResponse lib data r =
      CompressResponse lib data (r\<lparr>Header := [''Accept-Encoding'' \<mapsto> [''gzip'']]\<rparr>)) \<and>
   Contains ''gzip;q=0'' ''gzip''"
  by (auto simp: CompressResponse_def IsCompressed_def ceIdentity_def ceGzip_def
      Get_def Let_def split: option.splits prod.splits)

theorem CompressResponse_accept_encoding_witness:
  "\<not> Contains (Get (Header (request_with ''Accept-Encoding'' ''deflate'')) ''Accept-Encoding'') ''gzip''
   \<and> CompressResponse example_codec blank_data (request_with ''Accept-Encoding'' ''deflate'') =
       (None, blank_data\<lparr>ContentEncoding := ''identity''\<rparr>)
   \<and> Contains (Get (Header (request_with ''Accept-Encoding'' ''gzip;q=0'')) ''Accept-Encoding'') ''gzip''
   \<and> CompressResponse example_codec blank_data (request_with ''Accept-Encoding'' ''gzip;q=0'') =
       CompressResponse example_codec blank_data (request_with ''Accept-Encoding'' ''gzip'')
   \<and> CompressResponse example_codec blank_data (request_with ''Accept-Encoding'' ''gzip;q=0'') =
       (None, \<lparr>ContentType = ''application/json'', ContentEncoding = ''gzip'',
               Content = [0x1f, 0x8b, 0x20], UncompressedLength = 100\<rparr>)"
proof -
  have a: "\<not> Contains (Get (Header (request_with ''Accept-Encoding'' ''deflate'')) ''Accept-Encoding'') ''gzip''"
    by (simp add: request_with_def Get_def)
  have b: "Contains (Get (Header (request_with ''Accept-Encoding'' ''gzip;q=0'')) ''Accept-Encoding'') ''gzip''"
    by (simp add: request_with_def Get_def)
  have c: "blank_data\<lparr>ContentEncoding :=
             (if ContentEncoding blank_data = [] then ''identity'' else ContentEncoding blank_data)\<rparr>
           = blank_data\<lparr>ContentEncoding := ''identity''\<rparr>"
    by (simp add: blank_data_def)
  have d: "(request_with ''Accept-Encoding'' ''gzip;q=0'')\<lparr>Header := [''Accept-Encoding'' \<mapsto> [''gzip'']]\<rparr>
           = request_with ''Accept-Encoding'' ''gzip''"
    by (simp add: request_with_def)
  have e: "CompressResponse example_codec blank_data (request_with ''Accept-Encoding'' ''gzip'') =
       (None, \<lparr>ContentType = ''application/json'', ContentEncoding = ''gzip'',
               Content = [0x1f, 0x8b, 0x20], UncompressedLength = 100\<rparr>)"
    by (simp add: CompressResponse_def IsCompressed_def blank_data_def request_with_def Get_def
        ceIdentity_def ceGzip_def overhead_def example_codec_def remdups_adj_replicate)
  from CompressResponse_accept_encoding [where r = "request_with ''Accept-Encoding'' ''deflate''"
        and lib = example_codec and data = blank_data]
       CompressResponse_accept_encoding [where r = "request_with ''Accept-Encoding'' ''gzip;q=0''"
        and lib = example_codec and data = blank_data]
       a b c d e
  show ?thesis by simp
qed

text \<open>
  C5, as the claim states it, fails: \<^verbatim>\<open>json.Marshal\<close> encodes the struct value with
  \<^verbatim>\<open>Name\<close> \<open>ann\<close> and \<^verbatim>\<open>secret\<close> \<open>s3\<close>, \<^verbatim>\<open>MarshalFrom\<close> and then
  \<^verbatim>\<open>UnmarshalTo\<close> into a zero struct both succeed, and the target ends with an empty
  \<^verbatim>\<open>secret\<close>: it is not equal to the value marshalled.
\<close>

theorem Marshal_Unmarshal_roundtrip_counterexample:
  "MarshalFrom profile_json empty_data \<lparr>Name = ''ann'', secret = ''s3''\<rparr> =
     (None, \<lparr>ContentType = ''application/json'', ContentEncoding = [],
             Content = encode_profile ''ann'',
             UncompressedLength = int (length (encode_profile ''ann''))\<rparr>) \<and>
   UnmarshalTo example_codec profile_json
     \<lparr>ContentType = ''application/json'', ContentEncoding = [],
      Content = encode_profile ''ann'',
      UncompressedLength = int (length (encode_profile ''ann''))\<rparr>
     \<lparr>Name = [], secret = []\<rparr> =
     (None, \<lparr>ContentType = ''application/json'', ContentEncoding = ''identity'',
             Content = encode_profile ''ann'',
             UncompressedLength = int (length (encode_profile ''ann''))\<rparr>,
      \<lparr>Name = ''ann'', secret = []\<rparr>) \<and>
   \<lparr>Name = ''ann'', secret = []\<rparr> \<noteq> \<lparr>Name = ''ann'', secret = ''s3''\<rparr>"
  by (simp add: MarshalFrom_def UnmarshalTo_def Decompress_def IsCompressed_def ceIdentity_def
      empty_data_def profile_json_def)



section \<open>Properties of the query parameter reader\<close>

lemmas acc_defs = LookupInt_def GetInt_def LookupTime_def GetTime_def LookupDate_def GetDate_def
  LookupBool_def GetBool_def LookupString_def GetString_def parseInt_def parseTime_def
  parseDate_def parseBool_def

lemma after_cases:
  "after lib v c = v \<or> after lib v c = v\<lparr>invalidParams := stringset_Add (invalidParams v) (name_of c)\<rparr>"
  by (cases c) (auto simp: acc_defs Let_def split: option.splits sum.splits)

lemma after_values: "url_values (after lib v c) = url_values v"
  using after_cases [of lib v c] by auto

lemma after_distinct: "distinct (invalidParams v) \<Longrightarrow> distinct (invalidParams (after lib v c))"
  using after_cases [of lib v c] by (auto simp: stringset_Add_def)

lemma run_values: "url_values (run lib v cs) = url_values v"
  by (induction cs arbitrary: v) (simp_all add: after_values)

lemma run_distinct: "distinct (invalidParams v) \<Longrightarrow> distinct (invalidParams (run lib v cs))"
  by (induction cs arbitrary: v) (simp_all add: after_distinct)

lemma after_fails:
  "after lib v c =
     (if fails lib (url_values v) c
      then v\<lparr>invalidParams := stringset_Add (invalidParams v) (name_of c)\<rparr> else v)"
  by (cases c) (auto simp: acc_defs exists_def Let_def split: option.splits sum.splits)

lemma Add_set: "set (stringset_Add ss s) = insert s (set ss)"
  by (auto simp: stringset_Add_def)

lemma run_invalid_set:
  "set (invalidParams (run lib v cs)) =
     set (invalidParams v) \<union> {name_of c | c. c \<in> set cs \<and> fails lib (url_values v) c}"
proof (induction cs arbitrary: v)
  case Nil
  show ?case by simp
next
  case (Cons c cs)
  have "set (invalidParams (run lib v (c # cs))) =
        set (invalidParams (after lib v c)) \<union>
          {name_of d | d. d \<in> set cs \<and> fails lib (url_values v) d}"
    using Cons [of "after lib v c"] by (simp add: after_values)
  also have "set (invalidParams (after lib v c)) =
        set (invalidParams v) \<union> {name_of d | d. d = c \<and> fails lib (url_values v) d}"
    by (auto simp: after_fails Add_set)
  finally show ?case by auto
qed

lemma count_list_distinct:
  "distinct xs \<Longrightarrow> count_list xs x = (if x \<in> set xs then 1 else 0)"
  by (induction xs) auto

text \<open>
  C3. Let \<open>v\<close> be the \<^verbatim>\<open>Values\<close> of a request after any sequence of accessor calls,
  and let \<^verbatim>\<open>Values()\<close> of the string set list each member as often as the set holds it
  (once). Then \<^verbatim>\<open>Err()\<close> returns nil exactly when the invalid-parameter set is empty;
  otherwise it returns \<^verbatim>\<open>errkind.BadRequest\<close> whose message is the fixed prefix
  followed by the recorded names joined with commas; and a name is in the joined list
  exactly once when some call asked for it and its value failed to parse, however many
  calls asked for it and however many values it has, and not at all otherwise.
\<close>

theorem Err_lists_invalid_names_once:
  assumes v: "v = run lib (Query r) calls"
    and enum: "\<forall>n. count_list (stringset_Values lib (invalidParams v)) n = count_list (invalidParams v) n"
  shows "(Err lib v = None \<longleftrightarrow> invalidParams v = []) \<and>
         (invalidParams v \<noteq> [] \<longrightarrow>
            Err lib v = Some (errkind_BadRequest
              (''invalid value(s) in query string: '' @
               Join (stringset_Values lib (invalidParams v)) '',''))) \<and>
         (\<forall>n. count_list (stringset_Values lib (invalidParams v)) n =
                (if \<exists>c \<in> set calls. name_of c = n \<and> fails lib (URL_Query r) c then 1 else 0))"
proof -
  have d: "distinct (invalidParams v)"
    unfolding v by (rule run_distinct) (simp add: Query_def stringset_New_def)
  have s: "set (invalidParams v) = {name_of c | c. c \<in> set calls \<and> fails lib (URL_Query r) c}"
    unfolding v by (simp add: run_invalid_set) (simp add: Query_def stringset_New_def)
  have c: "count_list (stringset_Values lib (invalidParams v)) n =
           (if \<exists>c \<in> set calls. name_of c = n \<and> fails lib (URL_Query r) c then 1 else 0)" for n
  proof -
    have "count_list (stringset_Values lib (invalidParams v)) n = count_list (invalidParams v) n"
      using enum by simp
    also have "\<dots> = (if n \<in> set (invalidParams v) then 1 else 0)"
      using d by (rule count_list_distinct)
    also have "\<dots> = (if \<exists>c \<in> set calls. name_of c = n \<and> fails lib (URL_Query r) c then 1 else 0)"
      unfolding s by auto
    finally show ?thesis .
  qed
  show ?thesis
    using c by (simp add: Err_def stringset_Len_def)
qed

text \<open>
  C6. For a name absent from the query string every \<^verbatim>\<open>Lookup\<close> returns the zero value
  and \<open>False\<close> and leaves the \<^verbatim>\<open>Values\<close> (so the invalid set) as it was. For the
  time and date accessors the same holds when the value, after trimming, is empty,
  \<^verbatim>\<open>undefined\<close> or \<^verbatim>\<open>null\<close>, in particular when the value itself is one of the
  three. The integer, boolean and string accessors use the literal of a present name:
  the integer accessor returns what \<^verbatim>\<open>strconv.Atoi\<close> makes of it and records the name
  when that fails, the boolean accessor decides on the lower-cased literal and records
  the name when it is none of the eight accepted words, the string accessor returns the
  literal. An empty value of a present name is recorded as invalid by the integer and
  the boolean accessor.
\<close>

theorem Lookup_absent_or_blank:
  "(url_values v name = None \<longrightarrow>
      LookupInt v name = (0, False, v) \<and> LookupBool lib v name = (False, False, v) \<and>
      LookupString v name = ([], False, v) \<and>
      LookupTime lib v name = (time_zero lib, False, v) \<and>
      LookupDate lib v name = (date_zero lib, False, v)) \<and>
   (TrimSpace lib (Get (url_values v) name) \<in> set [[], ''undefined'', ''null''] \<longrightarrow>
      LookupTime lib v name = (time_zero lib, False, v) \<and>
      LookupDate lib v name = (date_zero lib, False, v)) \<and>
   (Get (url_values v) name \<in> set [[], ''undefined'', ''null''] \<longrightarrow>
      LookupTime lib v name = (time_zero lib, False, v) \<and>
      LookupDate lib v name = (date_zero lib, False, v)) \<and>
   (url_values v name \<noteq> None \<longrightarrow>
      LookupInt v name =
        (case Atoi (Get (url_values v) name) of
           Inr n \<Rightarrow> (n, True, v)
         | Inl e \<Rightarrow> (0, False, v\<lparr>invalidParams := stringset_Add (invalidParams v) name\<rparr>)) \<and>
      LookupBool lib v name =
        (let s = ToLower lib (Get (url_values v) name) in
         if s \<in> set [''1'', ''true'', ''yes'', ''t''] then (True, True, v)
         else if s \<in> set [''0'', ''false'', ''no'', ''f''] then (False, True, v)
         else (False, False, v\<lparr>invalidParams := stringset_Add (invalidParams v) name\<rparr>)) \<and>
      LookupString v name = (Get (url_values v) name, True, v)) \<and>
   (url_values v name \<noteq> None \<and> Get (url_values v) name = [] \<longrightarrow>
      LookupInt v name = (0, False, v\<lparr>invalidParams := stringset_Add (invalidParams v) name\<rparr>) \<and>
      LookupBool lib v name = (False, False, v\<lparr>invalidParams := stringset_Add (invalidParams v) name\<rparr>) \<and>
      name \<in> set (invalidParams (snd (snd (LookupInt v name)))))"
proof -
  have t: "TrimSpace lib s = s" if "s \<in> set [[], ''undefined'', ''null'']" for s
    using that by (auto simp: TrimSpace_def is_ascii_def is_ascii_space_def)
  have a: "Atoi [] = Inl ErrSyntax"
    by (simp add: Atoi_def ParseInt_def)
  have l: "ToLower lib [] = []"
    by (simp add: ToLower_def)
  show ?thesis
    apply (intro conjI impI)
    subgoal by (simp add: acc_defs exists_def)
    subgoal by (simp add: acc_defs exists_def)
    subgoal by (simp add: acc_defs exists_def)
    subgoal by (simp add: acc_defs exists_def)
    subgoal by (simp add: acc_defs exists_def)
    subgoal by (auto simp: acc_defs exists_def Let_def)
    subgoal by (auto simp: acc_defs exists_def Let_def)
    subgoal using t [of "Get (url_values v) name"] by (auto simp: acc_defs exists_def Let_def)
    subgoal using t [of "Get (url_values v) name"] by (auto simp: acc_defs exists_def Let_def)
    subgoal by (simp add: acc_defs exists_def split: sum.splits)
    subgoal by (simp add: acc_defs exists_def Let_def)
    subgoal by (simp add: acc_defs exists_def)
    subgoal by (simp add: acc_defs exists_def a)
    subgoal by (simp add: acc_defs exists_def l)
    subgoal by (simp add: acc_defs exists_def a Add_set)
    done
qed

text \<open>
  C10. \<^verbatim>\<open>LookupString\<close> and \<^verbatim>\<open>GetString\<close> return the \<^verbatim>\<open>Values\<close> they were
  given: a sequence of string accessor calls leaves the state, and so the result of
  \<^verbatim>\<open>Err()\<close>, as it was, and removing the string calls from any sequence of accessor
  calls does not change the state it ends in. \<^verbatim>\<open>LookupString\<close> reports a name as
  present whenever it is a key of the query; for a name whose only value is the empty
  string it returns the empty string and \<open>True\<close>, where \<^verbatim>\<open>LookupTime\<close> and
  \<^verbatim>\<open>LookupDate\<close> return the zero value and \<open>False\<close>.
\<close>

theorem String_accessors_frame:
  "LookupString v name =
     (if url_values v name = None then ([], False, v) else (Get (url_values v) name, True, v)) \<and>
   GetString v name =
     (if url_values v name = None then ([], v) else (Get (url_values v) name, v)) \<and>
   (list_all is_string_call cs \<longrightarrow> run lib v cs = v \<and> Err lib (run lib v cs) = Err lib v) \<and>
   run lib v (filter (\<lambda>c. \<not> is_string_call c) ds) = run lib v ds \<and>
   (url_values v name = Some [[]] \<longrightarrow>
      LookupString v name = ([], True, v) \<and>
      LookupTime lib v name = (time_zero lib, False, v) \<and>
      LookupDate lib v name = (date_zero lib, False, v))"
proof -
  have s: "after lib w c = w" if "is_string_call c" for w c
    using that by (cases c) (simp_all add: acc_defs)
  have r: "list_all is_string_call cs \<Longrightarrow> run lib w cs = w" for w
    by (induction cs arbitrary: w) (simp_all add: s)
  have f: "run lib w (filter (\<lambda>c. \<not> is_string_call c) ds) = run lib w ds" for w
    by (induction ds arbitrary: w) (simp_all add: s)
  have t: "TrimSpace lib [] = []"
    by (simp add: TrimSpace_def)
  show ?thesis
    using r f by (auto simp: acc_defs exists_def Get_def t)
qed

lemma example_run:
  "run example_golib (Query example_query) example_calls =
     \<lparr>url_values = URL_Query example_query, invalidParams = [''int'', ''b'']\<rparr>"
  by (simp add: example_calls_def example_query_def example_golib_def Query_def acc_defs exists_def
      stringset_New_def stringset_Add_def Get_def Atoi_def ParseInt_def ParseUint_def is_digit_def
      ToLower_def TrimSpace_def is_ascii_def is_ascii_space_def ascii_lower_def)

theorem Err_lists_invalid_names_once_witness:
  "Err example_golib (run example_golib (Query example_query) example_calls) =
     Some (errkind_BadRequest ''invalid value(s) in query string: int,b'') \<and>
   count_list (stringset_Values example_golib
     (invalidParams (run example_golib (Query example_query) example_calls))) ''int'' = 1"
proof -
  have e: "\<forall>n. count_list (stringset_Values example_golib
               (invalidParams (run example_golib (Query example_query) example_calls))) n =
             count_list (invalidParams (run example_golib (Query example_query) example_calls)) n"
    by (simp add: example_golib_def)
  have f: "\<exists>c \<in> set example_calls. name_of c = ''int'' \<and> fails example_golib (URL_Query example_query) c"
    by (simp add: example_calls_def example_query_def Get_def Atoi_def ParseInt_def ParseUint_def
        is_digit_def)
  have j: "stringset_Values example_golib [''int'', ''b''] = [''int'', ''b'']"
    by (simp add: example_golib_def)
  from Err_lists_invalid_names_once [OF refl e] f show ?thesis
    by (simp add: example_run j)
qed

theorem Lookup_absent_or_blank_witness:
  "LookupInt (Query example_query) ''absent'' = (0, False, Query example_query) \<and>
   LookupTime example_golib (Query example_query) ''t'' = (0, False, Query example_query) \<and>
   LookupDate example_golib (Query example_query) ''s'' = ((1, 1, 1), False, Query example_query) \<and>
   LookupString (Query example_query) ''s'' = ([], True, Query example_query) \<and>
   LookupInt (Query example_query) ''s'' =
     (0, False, \<lparr>url_values = URL_Query example_query, invalidParams = [''s'']\<rparr>)"
proof -
  have a: "url_values (Query example_query) ''absent'' = None"
    by (simp add: Query_def example_query_def)
  have t: "Get (url_values (Query example_query)) ''t'' \<in> set [[], ''undefined'', ''null'']"
    by (simp add: Query_def example_query_def Get_def)
  have s: "url_values (Query example_query) ''s'' \<noteq> None \<and> Get (url_values (Query example_query)) ''s'' = []"
    by (simp add: Query_def example_query_def Get_def)
  have z: "time_zero example_golib = 0" "date_zero example_golib = (1, 1, 1)"
    by (simp_all add: example_golib_def)
  have u: "(Query example_query)\<lparr>invalidParams := stringset_Add (invalidParams (Query example_query)) ''s''\<rparr>
           = \<lparr>url_values = URL_Query example_query, invalidParams = [''s'']\<rparr>"
    by (simp add: Query_def stringset_New_def stringset_Add_def)
  note T = Lookup_absent_or_blank [where v = "Query example_query" and lib = example_golib]
  from T [where name = "''absent''"] a
  have g1: "LookupInt (Query example_query) ''absent'' = (0, False, Query example_query)"
    by blast
  from T [where name = "''t''"] t
  have g2: "LookupTime example_golib (Query example_query) ''t'' =
              (time_zero example_golib, False, Query example_query)"
    by blast
  have sm: "Get (url_values (Query example_query)) ''s'' \<in> set [[], ''undefined'', ''null'']"
    using s by simp
  from T [where name = "''s''"] s sm
  have g3: "LookupDate example_golib (Query example_query) ''s'' =
              (date_zero example_golib, False, Query example_query)"
    and g4: "LookupString (Query example_query) ''s'' =
              (Get (url_values (Query example_query)) ''s'', True, Query example_query)"
    and g5: "LookupInt (Query example_query) ''s'' =
              (0, False, (Query example_query)\<lparr>invalidParams :=
                 stringset_Add (invalidParams (Query example_query)) ''s''\<rparr>)"
    by blast+
  from g1 g2 [unfolded z] g3 [unfolded z] g4 [unfolded s [THEN conjunct2]] g5 [unfolded u]
  show ?thesis by blast
qed

theorem String_accessors_frame_witness:
  "LookupString (Query example_query) ''s'' = ([], True, Query example_query) \<and>
   LookupTime example_golib (Query example_query) ''s'' = (0, False, Query example_query) \<and>
   run example_golib (Query example_query) [Call_LookupString ''s'', Call_GetString ''int'']
     = Query example_query \<and>
   Err example_golib
     (run example_golib (Query example_query) [Call_LookupString ''s'', Call_GetString ''int''])
     = Err example_golib (Query example_query)"
proof -
  have s: "url_values (Query example_query) ''s'' = Some [[]]"
    by (simp add: Query_def example_query_def)
  have c: "list_all is_string_call [Call_LookupString ''s'', Call_GetString ''int'']"
    by simp
  have z: "time_zero example_golib = 0"
    by (simp add: example_golib_def)
  note T = String_accessors_frame [where v = "Query example_query" and name = "''s''"
         and lib = example_golib and cs = "[Call_LookupString ''s'', Call_GetString ''int'']"]
  from T s
  have g1: "LookupString (Query example_query) ''s'' = ([], True, Query example_query)"
    and g2: "LookupTime example_golib (Query example_query) ''s'' =
              (time_zero example_golib, False, Query example_query)"
    by blast+
  from T c
  have g3: "run example_golib (Query example_query) [Call_LookupString ''s'', Call_GetString ''int'']
              = Query example_query"
    and g4: "Err example_golib
              (run example_golib (Query example_query) [Call_LookupString ''s'', Call_GetString ''int''])
              = Err example_golib (Query example_query)"
    by blast+
  from g1 g2 [unfolded z] g3 g4 show ?thesis by blast
qed

section \<open>Properties of the error presentation policy\<close>

lemma build_content_Status:
  "Status (build_content lib config r err) =
     (let cause = errors_Cause lib err in
      if has_PublicStatusCode lib cause \<and> 400 \<le> errkind_StatusCode lib cause \<and>
         errkind_StatusCode lib cause \<le> 599
      then errkind_StatusCode lib cause else 500)"
  by (simp add: build_content_def Let_def StatusInternalServerError_def split: option.splits)

text \<open>
  C4. For every error handed to \<^verbatim>\<open>WriteError\<close> (nil included, which stands for the
  error \<open>nil_error\<close>), the response writer receives exactly one \<^verbatim>\<open>WriteHeader\<close> call.
  Its status is the status of the error's cause when the cause has the public-status
  capability and that status lies in 400..599, and 500 in every other case; so it
  always lies in 400..599.
\<close>

theorem WriteError_status:
  "(let err1 = (case err of None \<Rightarrow> nil_error lib | Some e \<Rightarrow> e);
        cause = errors_Cause lib err1;
        status = (if has_PublicStatusCode lib cause \<and> 400 \<le> errkind_StatusCode lib cause \<and>
                     errkind_StatusCode lib cause \<le> 599
                  then errkind_StatusCode lib cause else 500)
    in filter is_WriteHeader (fst (WriteError lib attached r err)) = [WriteHeader status] \<and>
       400 \<le> status \<and> status \<le> 599)"
  by (cases err) (simp_all add: WriteError_def build_content_Status Let_def)

lemma build_content_public:
  "build_content lib config r err =
     (let cause = errors_Cause lib err;
          st = (case public_status lib cause of
                  Some s \<Rightarrow> if s < 400 \<or> s > 599 then 500 else s | None \<Rightarrow> 500);
          msg = (case public_message lib cause of Some m \<Rightarrow> m | None \<Rightarrow> [])
      in \<lparr>Message = (if msg = [] then http_StatusText lib st else msg),
          Status = st,
          Code = (case public_code lib cause of Some c \<Rightarrow> c | None \<Rightarrow> []),
          Trace = call_GetTrace config r,
          Err' = (if call_IsTrusted config r then Some err else None)\<rparr>)"
  by (simp add: build_content_def public_status_def public_message_def public_code_def Let_def
      StatusInternalServerError_def split: option.splits)

text \<open>
  C2. When the trust predicate of the request's effective configuration returns false,
  the content handed to the marshaller carries no underlying error, and the payload the
  default marshaller encodes has no \<^verbatim>\<open>detail\<close> field. For two errors whose causes
  agree on public status, public message and public code, the calls \<^verbatim>\<open>WriteError\<close>
  makes on the response writer (headers, status, body bytes) are then the same,
  whatever marshaller and trace callback are configured.
\<close>

theorem WriteError_untrusted:
  assumes "\<not> call_IsTrusted (ConfigFromRequest lib attached) r"
    and "public_status lib (errors_Cause lib e1) = public_status lib (errors_Cause lib e2)"
    and "public_message lib (errors_Cause lib e1) = public_message lib (errors_Cause lib e2)"
    and "public_code lib (errors_Cause lib e1) = public_code lib (errors_Cause lib e2)"
  shows "Err' (build_content lib (ConfigFromRequest lib attached) r e1) = None \<and>
         ''detail'' \<notin> set (map fst (payload_fields lib
            (build_content lib (ConfigFromRequest lib attached) r e1))) \<and>
         fst (WriteError lib attached r (Some e1)) = fst (WriteError lib attached r (Some e2))"
proof -
  let ?c = "build_content lib (ConfigFromRequest lib attached) r"
  have n: "Err' (?c e) = None" for e
    using assms(1) by (simp add: build_content_public Let_def)
  have k: "map fst (payload_fields lib c) =
             [''message'', ''status''] @ (if Code c \<noteq> [] then [''code''] else []) @
             (if Trace c \<noteq> [] then [''trace''] else [])" if "Err' c = None" for c :: "'a Content"
    using that by (simp add: payload_fields_def)
  have d: "''detail'' \<notin> set (map fst (payload_fields lib (?c e1)))"
    unfolding k [OF n] by simp
  have e: "?c e1 = ?c e2"
    using assms by (simp add: build_content_public Let_def)
  have w: "fst (WriteError lib attached r (Some e1)) = fst (WriteError lib attached r (Some e2))"
    using e by (simp add: WriteError_def Let_def)
  from n d w show ?thesis by blast
qed

text \<open>
  C8. \<^verbatim>\<open>WriteError\<close> with a nil error does exactly what it does with the error
  \<^verbatim>\<open>errkind.Public("no information available", 500)\<close>: the same calls on the response
  writer and the same post-write notification. When that error's cause makes public
  the status 500 and the message it was built with (what \<^verbatim>\<open>errkind.Public\<close> is for),
  the content is the generic message with status 500, the configured trace and the
  trust-gated underlying error; the status written is 500, the body is the configured
  marshaller's output for that content, and the post-write callback receives the
  content with the error attached.
\<close>

theorem WriteError_nil:
  "WriteError lib attached r None = WriteError lib attached r (Some (nil_error lib)) \<and>
   nil_error lib = errkind_Public_fn lib ''no information available'' 500 \<and>
   (public_status lib (errors_Cause lib (nil_error lib)) = Some 500 \<and>
    public_message lib (errors_Cause lib (nil_error lib)) = Some ''no information available'' \<longrightarrow>
      build_content lib (ConfigFromRequest lib attached) r (nil_error lib) =
        \<lparr>Message = ''no information available'', Status = 500,
         Code = (case public_code lib (errors_Cause lib (nil_error lib)) of
                   Some c \<Rightarrow> c | None \<Rightarrow> []),
         Trace = call_GetTrace (ConfigFromRequest lib attached) r,
         Err' = (if call_IsTrusted (ConfigFromRequest lib attached) r
                 then Some (nil_error lib) else None)\<rparr> \<and>
      filter is_WriteHeader (fst (WriteError lib attached r None)) = [WriteHeader 500] \<and>
      last (fst (WriteError lib attached r None)) =
        Write (call_MarshalContent (ConfigFromRequest lib attached)
          (build_content lib (ConfigFromRequest lib attached) r (nil_error lib))) \<and>
      snd (WriteError lib attached r None) =
        call_ErrorWritten (ConfigFromRequest lib attached) r
          ((build_content lib (ConfigFromRequest lib attached) r (nil_error lib))
             \<lparr>Err' := Some (nil_error lib)\<rparr>))"
  by (simp add: WriteError_def build_content_public Let_def nil_error_def
      StatusInternalServerError_def)

lemma example_public_values:
  "public_status example_extern (errors_Cause example_extern wrapped_not_found) = Some 404"
  "public_status example_extern (errors_Cause example_extern not_found) = Some 404"
  "public_message example_extern (errors_Cause example_extern wrapped_not_found) = Some ''not found''"
  "public_message example_extern (errors_Cause example_extern not_found) = Some ''not found''"
  "public_code example_extern (errors_Cause example_extern wrapped_not_found) = None"
  "public_code example_extern (errors_Cause example_extern not_found) = None"
  by (simp_all add: public_status_def public_message_def public_code_def example_extern_def
      wrapped_not_found_def not_found_def)

lemma example_untrusted:
  "\<not> call_IsTrusted (ConfigFromRequest example_extern no_config) r"
  by (simp add: ConfigFromRequest_def no_config_def zero_Config_def Default_def
      defaultIsTrusted_def)

theorem WriteError_status_witness:
  "filter is_WriteHeader (fst (WriteError example_extern no_config example_query (Some wrapped_not_found)))
     = [WriteHeader 404] \<and>
   filter is_WriteHeader (fst (WriteError example_extern no_config example_query
     (Some (errors_New ''connection refused'')))) = [WriteHeader 500]"
proof -
  have a: "errors_Cause example_extern wrapped_not_found = errkind_Public ''not found'' 404"
    "has_PublicStatusCode example_extern (errkind_Public ''not found'' 404)"
    "errkind_StatusCode example_extern (errkind_Public ''not found'' 404) = 404"
    by (simp_all add: example_extern_def wrapped_not_found_def)
  have b: "errors_Cause example_extern (errors_New ''connection refused'')
             = errors_New ''connection refused''"
    "\<not> has_PublicStatusCode example_extern (errors_New ''connection refused'')"
    by (simp_all add: example_extern_def)
  from WriteError_status [where lib = example_extern and attached = no_config
         and r = example_query and err = "Some wrapped_not_found"] a
  have g1: "filter is_WriteHeader
              (fst (WriteError example_extern no_config example_query (Some wrapped_not_found)))
            = [WriteHeader 404]"
    by (simp add: Let_def)
  from WriteError_status [where lib = example_extern and attached = no_config
         and r = example_query and err = "Some (errors_New ''connection refused'')"] b
  have g2: "filter is_WriteHeader (fst (WriteError example_extern no_config example_query
              (Some (errors_New ''connection refused'')))) = [WriteHeader 500]"
    by (simp add: Let_def)
  from g1 g2 show ?thesis by blast
qed

theorem WriteError_untrusted_witness:
  "Err' (build_content example_extern (ConfigFromRequest example_extern no_config) example_query
      wrapped_not_found) = None \<and>
   ''detail'' \<notin> set (map fst (payload_fields example_extern
      (build_content example_extern (ConfigFromRequest example_extern no_config) example_query
         wrapped_not_found))) \<and>
   fst (WriteError example_extern no_config example_query (Some wrapped_not_found)) =
   fst (WriteError example_extern no_config example_query (Some not_found))"
  by (rule WriteError_untrusted [OF example_untrusted])
     (simp_all only: example_public_values)

theorem WriteError_nil_witness:
  "WriteError example_extern no_config example_query None =
     WriteError example_extern no_config example_query (Some (nil_error example_extern)) \<and>
   filter is_WriteHeader (fst (WriteError example_extern no_config example_query None))
     = [WriteHeader 500] \<and>
   build_content example_extern (ConfigFromRequest example_extern no_config) example_query
       (nil_error example_extern) =
     \<lparr>Message = ''no information available'', Status = 500, Code = [], Trace = [], Err' = None\<rparr>"
proof -
  have n: "nil_error example_extern = errkind_Public ''no information available'' 500"
    by (simp add: nil_error_def example_extern_def StatusInternalServerError_def)
  have c: "public_status example_extern (errors_Cause example_extern (nil_error example_extern))
             = Some 500 \<and>
           public_message example_extern (errors_Cause example_extern (nil_error example_extern))
             = Some ''no information available''"
    unfolding n by (simp add: public_status_def public_message_def example_extern_def)
  have k: "public_code example_extern (errors_Cause example_extern (nil_error example_extern)) = None"
    unfolding n by (simp add: public_code_def example_extern_def)
  have t: "call_GetTrace (ConfigFromRequest example_extern no_config) example_query = []"
    by (simp add: ConfigFromRequest_def no_config_def zero_Config_def Default_def
        defaultGetTrace_def)
  note T = WriteError_nil [where lib = example_extern and attached = no_config
             and r = example_query]
  from T have g1: "WriteError example_extern no_config example_query None =
     WriteError example_extern no_config example_query (Some (nil_error example_extern))"
    by blast
  from T c have g2: "filter is_WriteHeader (fst (WriteError example_extern no_config example_query None))
     = [WriteHeader 500]"
    by blast
  from T c have g3: "build_content example_extern (ConfigFromRequest example_extern no_config)
       example_query (nil_error example_extern) =
        \<lparr>Message = ''no information available'', Status = 500,
         Code = (case public_code example_extern
                        (errors_Cause example_extern (nil_error example_extern)) of
                   Some c \<Rightarrow> c | None \<Rightarrow> []),
         Trace = call_GetTrace (ConfigFromRequest example_extern no_config) example_query,
         Err' = (if call_IsTrusted (ConfigFromRequest example_extern no_config) example_query
                 then Some (nil_error example_extern) else None)\<rparr>"
    by blast
  have g3': "build_content example_extern (ConfigFromRequest example_extern no_config) example_query
       (nil_error example_extern) =
     \<lparr>Message = ''no information available'', Status = 500, Code = [], Trace = [], Err' = None\<rparr>"
    using g3 example_untrusted [of example_query] by (simp add: k t)
  from g1 g2 g3' show ?thesis by blast
qed

end
